theory Spec2Isabelle
  imports Main "HOL-Library.Sublist"
begin

section \<open>Python values and the operations the module applies to them\<close>

text \<open>
  The collaborator (a proxmoxer API handle) returns decoded JSON. The values are modelled
  as \<open>None\<close>, booleans, unbounded integers, strings, lists and dictionaries with string keys
  (an association list in insertion order, one entry per key). Floating-point numbers are
  left out. A string is the list of its characters; \<open>char\<close> has 256 values, read as the
  code points below 256.
\<close>

datatype pyval =
    PNone
  | PBool bool
  | PInt int
  | PStr string
  | PList "pyval list"
  | PDict "(string \<times> pyval) list"

text \<open>
  An exception is its class and the text \<open>str(e)\<close>. The module tells \<open>ValueError\<close>
  (and its subclasses) from every other subclass of \<open>Exception\<close>; \<open>OtherException\<close> carries
  the name of any class that derives from \<open>Exception\<close> but not from \<open>ValueError\<close>.
\<close>

datatype exc_class = ValueError | RuntimeError | KeyError | TypeError | OtherException string

datatype exn = Exn exc_class string

fun exn_class :: "exn \<Rightarrow> exc_class" where
  "exn_class (Exn c m) = c"

fun exn_str :: "exn \<Rightarrow> string" where
  "exn_str (Exn c m) = m"

text \<open>
  What the interpreter itself supplies and the module does not fix: the message of the
  \<open>TypeError\<close> raised by subscripting a value that is not a dictionary with a string, the
  message of the \<open>TypeError\<close> raised by \<open>in\<close> on a value that is not a container, and
  \<open>repr\<close> of a string (quoting and escapes). They are parameters of the model.
\<close>

record py_runtime =
  getitem_error :: "pyval \<Rightarrow> string"
  contains_error :: "pyval \<Rightarrow> string"
  repr_str :: "string \<Rightarrow> string"

text \<open>\<open>bool(x)\<close>, as used by \<open>not x\<close>.\<close>

fun py_truthy :: "pyval \<Rightarrow> bool" where
  "py_truthy PNone = False"
| "py_truthy (PBool b) = b"
| "py_truthy (PInt i) = (i \<noteq> 0)"
| "py_truthy (PStr s) = (s \<noteq> [])"
| "py_truthy (PList xs) = (xs \<noteq> [])"
| "py_truthy (PDict d) = (d \<noteq> [])"

text \<open>\<open>x[key]\<close> for a string key.\<close>

fun py_getitem :: "py_runtime \<Rightarrow> pyval \<Rightarrow> string \<Rightarrow> exn + pyval" where
  "py_getitem rt (PDict d) k =
     (case map_of d k of
        None \<Rightarrow> Inl (Exn KeyError (repr_str rt k))
      | Some v \<Rightarrow> Inr v)"
| "py_getitem rt x k = Inl (Exn TypeError (getitem_error rt x))"

text \<open>\<open>key in x\<close> for a string key: a key of a dictionary, an element of a list, a substring of a string.\<close>

fun py_contains :: "py_runtime \<Rightarrow> string \<Rightarrow> pyval \<Rightarrow> exn + bool" where
  "py_contains rt k (PDict d) = Inr (map_of d k \<noteq> None)"
| "py_contains rt k (PList xs) = Inr (PStr k \<in> set xs)"
| "py_contains rt k (PStr s) = Inr (sublist k s)"
| "py_contains rt k x = Inl (Exn TypeError (contains_error rt x))"

text \<open>\<open>d.get(key, default)\<close>.\<close>

definition dict_get :: "(string \<times> pyval) list \<Rightarrow> string \<Rightarrow> pyval \<Rightarrow> pyval" where
  "dict_get d k dflt = (case map_of d k of None \<Rightarrow> dflt | Some v \<Rightarrow> v)"

text \<open>Decimal digits of a natural number, and \<open>str\<close> of an integer.\<close>

fun dec :: "nat \<Rightarrow> string" where
  "dec n = (if n < 10 then [char_of (48 + n)] else dec (n div 10) @ [char_of (48 + n mod 10)])"

declare dec.simps [simp del]

definition int_str :: "int \<Rightarrow> string" where
  "int_str i = (if i < 0 then CHR ''-'' # dec (nat (- i)) else dec (nat i))"

fun join :: "string \<Rightarrow> string list \<Rightarrow> string" where
  "join sep [] = []"
| "join sep [x] = x"
| "join sep (x # y # ys) = x @ sep @ join sep (y # ys)"

text \<open>\<open>repr(x)\<close> and \<open>str(x)\<close>: they differ on strings only.\<close>

fun py_repr :: "py_runtime \<Rightarrow> pyval \<Rightarrow> string" where
  "py_repr rt PNone = ''None''"
| "py_repr rt (PBool b) = (if b then ''True'' else ''False'')"
| "py_repr rt (PInt i) = int_str i"
| "py_repr rt (PStr s) = repr_str rt s"
| "py_repr rt (PList xs) = ''['' @ join '', '' (map (py_repr rt) xs) @ '']''"
| "py_repr rt (PDict d) =
     ''{'' @ join '', '' (map (\<lambda>kv. repr_str rt (fst kv) @ '': '' @ py_repr rt (snd kv)) d) @ ''}''"

fun py_str :: "py_runtime \<Rightarrow> pyval \<Rightarrow> string" where
  "py_str rt (PStr s) = s"
| "py_str rt x = py_repr rt x"

text \<open>
  \<open>str.lower()\<close> on code points below 256: the ASCII capitals and the Latin-1 capitals
  (\<open>0xC0\<close> to \<open>0xDE\<close>, the multiplication sign \<open>0xD7\<close> apart) move up by 32.
\<close>

definition lower_char :: "char \<Rightarrow> char" where
  "lower_char c =
     (let n = (of_char c :: nat)
      in if (65 \<le> n \<and> n \<le> 90) \<or> (192 \<le> n \<and> n \<le> 222 \<and> n \<noteq> 215) then char_of (n + 32) else c)"

definition py_lower :: "string \<Rightarrow> string" where
  "py_lower s = map lower_char s"

section \<open>The collaborator and what an invocation does to it\<close>

text \<open>
  \<open>self.proxmox\<close> is used through three operations, each called at most once per
  invocation and in a fixed order: \<open>nodes(node).qemu(vmid).status.current.get()\<close>,
  \<open>nodes(node).qemu(vmid).agent("exec").post(command=command)\<close> and
  \<open>nodes(node).qemu(vmid).agent("exec-status").get(pid=pid)\<close>. Each either raises
  (a subclass of \<open>Exception\<close>) or returns a value. Building the resource path
  (\<open>nodes(node).qemu(vmid).agent\<close>) sends nothing and is taken not to raise.
\<close>

record proxmox_api =
  status_current_get :: "string \<Rightarrow> string \<Rightarrow> exn + pyval"
  agent_exec_post :: "string \<Rightarrow> string \<Rightarrow> string \<Rightarrow> exn + pyval"
  agent_exec_status_get :: "string \<Rightarrow> string \<Rightarrow> pyval \<Rightarrow> exn + pyval"

text \<open>
  The effects of an invocation, in the order they happen: the three collaborator calls with
  their arguments, \<open>asyncio.sleep(seconds)\<close>, and the one warning the module logs. The
  other log lines and prints change neither the result nor the collaborator and are not
  recorded.
\<close>

datatype event =
    StatusGet string string
  | ExecPost string string string
  | Sleep nat
  | ExecStatusGet string string pyval
  | LogWarning string

fun is_submit :: "event \<Rightarrow> bool" where
  "is_submit (ExecPost n v c) = True"
| "is_submit e = False"

fun is_poll :: "event \<Rightarrow> bool" where
  "is_poll (ExecStatusGet n v p) = True"
| "is_poll e = False"

fun is_sleep :: "event \<Rightarrow> bool" where
  "is_sleep (Sleep t) = True"
| "is_sleep e = False"

section \<open>\<open>VMConsoleManager.execute_command\<close>\<close>

text \<open>\<open>try: body except Exception as e: raise RuntimeError(pre + str(e))\<close>.\<close>

definition rewrap :: "string \<Rightarrow> exn + 'a \<Rightarrow> exn + 'a" where
  "rewrap pre r =
     (case r of
        Inl e \<Rightarrow> Inl (Exn RuntimeError (pre @ exn_str e))
      | Inr v \<Rightarrow> Inr v)"

text \<open>The innermost \<open>try\<close> around \<open>endpoint("exec").post(command=command)\<close>.\<close>

definition start_command :: "proxmox_api \<Rightarrow> string \<Rightarrow> string \<Rightarrow> string \<Rightarrow> exn + pyval" where
  "start_command api node vmid command =
     rewrap ''Failed to start command: '' (agent_exec_post api node vmid command)"

text \<open>
  The innermost \<open>try\<close> around \<open>endpoint("exec-status").get(pid=pid)\<close>: the
  \<open>RuntimeError\<close> raised for a falsy response is raised inside that \<open>try\<close> and is
  caught by its handler like a failure of the call.
\<close>

definition get_command_status :: "proxmox_api \<Rightarrow> string \<Rightarrow> string \<Rightarrow> pyval \<Rightarrow> exn + pyval" where
  "get_command_status api node vmid pid =
     rewrap ''Failed to get command status: ''
       (case agent_exec_status_get api node vmid pid of
          Inl e \<Rightarrow> Inl e
        | Inr console \<Rightarrow>
            if \<not> py_truthy console then Inl (Exn RuntimeError ''No response from exec-status'')
            else Inr console)"

text \<open>
  The body of the middle \<open>try\<close> (start, the test for \<open>'pid'\<close>, the delay, the status
  query), with the events it causes.
\<close>

definition two_step ::
  "py_runtime \<Rightarrow> proxmox_api \<Rightarrow> string \<Rightarrow> string \<Rightarrow> string \<Rightarrow> (exn + pyval) \<times> event list" where
  "two_step rt api node vmid command =
     (case start_command api node vmid command of
        Inl e \<Rightarrow> (Inl e, [ExecPost node vmid command])
      | Inr exec_result \<Rightarrow>
          (case py_contains rt ''pid'' exec_result of
             Inl e \<Rightarrow> (Inl e, [ExecPost node vmid command])
           | Inr has_pid \<Rightarrow>
               if \<not> has_pid
               then (Inl (Exn RuntimeError ''No PID returned from command execution''),
                     [ExecPost node vmid command])
               else
                 (case py_getitem rt exec_result ''pid'' of
                    Inl e \<Rightarrow> (Inl e, [ExecPost node vmid command])
                  | Inr pid \<Rightarrow>
                      (get_command_status api node vmid pid,
                       [ExecPost node vmid command, Sleep 1, ExecStatusGet node vmid pid]))))"

text \<open>The middle \<open>try\<close> with its handler.\<close>

definition api_call ::
  "py_runtime \<Rightarrow> proxmox_api \<Rightarrow> string \<Rightarrow> string \<Rightarrow> string \<Rightarrow> (exn + pyval) \<times> event list" where
  "api_call rt api node vmid command =
     (let r = two_step rt api node vmid command
      in (rewrap ''API call failed: '' (fst r), snd r))"

text \<open>
  "Handle different response structures": \<open>output\<close>, \<open>error\<close> and \<open>exit_code\<close>, and the
  warning logged when the response is a dictionary whose \<open>exited\<close> is falsy.
\<close>

definition handle_response :: "py_runtime \<Rightarrow> pyval \<Rightarrow> (pyval \<times> pyval \<times> pyval) \<times> event list" where
  "handle_response rt console =
     (case console of
        PDict d \<Rightarrow>
          ((dict_get d ''out-data'' (PStr []),
            dict_get d ''err-data'' (PStr []),
            dict_get d ''exitcode'' (PInt 0)),
           (if \<not> py_truthy (dict_get d ''exited'' (PInt 0))
            then [LogWarning ''Command may not have completed''] else []))
      | _ \<Rightarrow> ((PStr (py_str rt console), PStr [], PInt 0), []))"

text \<open>The dictionary the function returns.\<close>

definition result_dict :: "pyval \<times> pyval \<times> pyval \<Rightarrow> pyval" where
  "result_dict t =
     (case t of (output, error, exit_code) \<Rightarrow>
        PDict [(''success'', PBool True),
               (''output'', output),
               (''error'', error),
               (''exit_code'', exit_code)])"

definition not_running_error :: "string \<Rightarrow> string \<Rightarrow> exn" where
  "not_running_error node vmid =
     Exn ValueError (''VM '' @ vmid @ '' on node '' @ node @ '' is not running'')"

definition not_found_error :: "string \<Rightarrow> string \<Rightarrow> exn" where
  "not_found_error node vmid =
     Exn ValueError (''VM '' @ vmid @ '' not found on node '' @ node)"

text \<open>The body of the outer \<open>try\<close>.\<close>

definition execute_body ::
  "py_runtime \<Rightarrow> proxmox_api \<Rightarrow> string \<Rightarrow> string \<Rightarrow> string \<Rightarrow> (exn + pyval) \<times> event list" where
  "execute_body rt api node vmid command =
     (case status_current_get api node vmid of
        Inl e \<Rightarrow> (Inl e, [StatusGet node vmid])
      | Inr vm_status \<Rightarrow>
          (case py_getitem rt vm_status ''status'' of
             Inl e \<Rightarrow> (Inl e, [StatusGet node vmid])
           | Inr st \<Rightarrow>
               if st \<noteq> PStr ''running''
               then (Inl (not_running_error node vmid), [StatusGet node vmid])
               else
                 (case api_call rt api node vmid command of
                    (Inl e, tr) \<Rightarrow> (Inl e, StatusGet node vmid # tr)
                  | (Inr console, tr) \<Rightarrow>
                      (case handle_response rt console of
                         (vals, warn) \<Rightarrow>
                           (Inr (result_dict vals), StatusGet node vmid # tr @ warn)))))"

text \<open>
  The handlers of the outer \<open>try\<close>: \<open>except ValueError: raise\<close>, then
  \<open>except Exception as e\<close> with the test \<open>"not found" in str(e).lower()\<close>.
\<close>

definition mentions_not_found :: "string \<Rightarrow> bool" where
  "mentions_not_found s = sublist ''not found'' (py_lower s)"

definition classify :: "string \<Rightarrow> string \<Rightarrow> exn \<Rightarrow> exn" where
  "classify node vmid e =
     (if exn_class e = ValueError then e
      else if mentions_not_found (exn_str e) then not_found_error node vmid
      else Exn RuntimeError (''Failed to execute command: '' @ exn_str e))"

definition execute_command ::
  "py_runtime \<Rightarrow> proxmox_api \<Rightarrow> string \<Rightarrow> string \<Rightarrow> string \<Rightarrow> (exn + pyval) \<times> event list" where
  "execute_command rt api node vmid command =
     (case execute_body rt api node vmid command of
        (Inl e, tr) \<Rightarrow> (Inl (classify node vmid e), tr)
      | (Inr res, tr) \<Rightarrow> (Inr res, tr))"

section \<open>Vocabulary of the properties\<close>

text \<open>
  The status check passes: the status query returns a value whose \<open>"status"\<close> is the
  string \<open>"running"\<close>.
\<close>

definition vm_running :: "py_runtime \<Rightarrow> proxmox_api \<Rightarrow> string \<Rightarrow> string \<Rightarrow> bool" where
  "vm_running rt api node vmid =
     (case status_current_get api node vmid of
        Inl e \<Rightarrow> False
      | Inr vm_status \<Rightarrow> py_getitem rt vm_status ''status'' = Inr (PStr ''running''))"

text \<open>
  The process identifier of a successful submission: the \<open>exec\<close> call returns a dictionary
  with a \<open>'pid'\<close> entry. Any other outcome of the call is \<open>None\<close>.
\<close>

definition submitted_pid :: "proxmox_api \<Rightarrow> string \<Rightarrow> string \<Rightarrow> string \<Rightarrow> pyval option" where
  "submitted_pid api node vmid command =
     (case agent_exec_post api node vmid command of
        Inr (PDict d) \<Rightarrow> map_of d ''pid''
      | _ \<Rightarrow> None)"

text \<open>\<open>isinstance(x, dict)\<close>.\<close>

fun is_dict :: "pyval \<Rightarrow> bool" where
  "is_dict (PDict d) = True"
| "is_dict x = False"

text \<open>
  The module raises two classes only. The error kinds are told apart by their messages, as
  they reach the caller: every \<open>RuntimeError\<close> leaves through the outer handler, which
  puts \<open>Failed to execute command:\<close> in front of the message built by the inner handlers.
\<close>

definition execution_failed_error :: "string \<Rightarrow> exn" where
  "execution_failed_error m = Exn RuntimeError (''Failed to execute command: '' @ m)"

definition execution_start_error :: "exn" where
  "execution_start_error =
     execution_failed_error ''API call failed: No PID returned from command execution''"

definition status_fetch_error :: "string \<Rightarrow> exn" where
  "status_fetch_error m =
     execution_failed_error (''API call failed: Failed to get command status: '' @ m)"

section \<open>A scripted collaborator\<close>

text \<open>
  For running the model on examples: an interpreter with generic messages and a \<open>repr\<close>
  that quotes without escaping, and a collaborator that answers each of its three
  operations with a fixed outcome.
\<close>

definition demo_runtime :: py_runtime where
  "demo_runtime =
     \<lparr>getitem_error = (\<lambda>x. ''object is not subscriptable''),
      contains_error = (\<lambda>x. ''argument is not iterable''),
      repr_str = (\<lambda>s. [CHR 0x27] @ s @ [CHR 0x27])\<rparr>"

definition scripted_api :: "exn + pyval \<Rightarrow> exn + pyval \<Rightarrow> exn + pyval \<Rightarrow> proxmox_api" where
  "scripted_api st ex po =
     \<lparr>status_current_get = (\<lambda>node vmid. st),
      agent_exec_post = (\<lambda>node vmid command. ex),
      agent_exec_status_get = (\<lambda>node vmid pid. po)\<rparr>"

definition running_status :: "exn + pyval" where
  "running_status = Inr (PDict [(''status'', PStr ''running'')])"

definition started :: "exn + pyval" where
  "started = Inr (PDict [(''pid'', PInt 4711)])"

section \<open>How the steps compose\<close>

lemma rewrap_Inl: "rewrap p (Inl e) = Inl (Exn RuntimeError (p @ exn_str e))"
  by (simp add: rewrap_def)

lemma rewrap_Inr: "rewrap p (Inr v) = Inr v"
  by (simp add: rewrap_def)

lemma py_lower_append: "py_lower (a @ b) = py_lower a @ py_lower b"
  by (simp add: py_lower_def)

lemma lower_api_call_failed: "py_lower ''API call failed: '' = ''api call failed: ''"
  by code_simp

lemma lower_failed_to_start: "py_lower ''Failed to start command: '' = ''failed to start command: ''"
  by code_simp

lemma lower_failed_to_get: "py_lower ''Failed to get command status: '' = ''failed to get command status: ''"
  by code_simp

lemma mentions_api_call_failed:
  "mentions_not_found (''API call failed: '' @ m) = mentions_not_found m"
  unfolding mentions_not_found_def py_lower_append lower_api_call_failed
  by (simp add: sublist_Cons_right)

lemma mentions_failed_to_start:
  "mentions_not_found (''Failed to start command: '' @ m) = mentions_not_found m"
  unfolding mentions_not_found_def py_lower_append lower_failed_to_start
  by (simp add: sublist_Cons_right)

lemma mentions_failed_to_get:
  "mentions_not_found (''Failed to get command status: '' @ m) = mentions_not_found m"
  unfolding mentions_not_found_def py_lower_append lower_failed_to_get
  by (simp add: sublist_Cons_right)

lemma no_pid_not_mentions:
  "\<not> mentions_not_found ''API call failed: No PID returned from command execution''"
  by code_simp

lemma no_response_not_mentions:
  "\<not> mentions_not_found ''API call failed: Failed to get command status: No response from exec-status''"
  by code_simp

lemma body_status_raises:
  "status_current_get api node vmid = Inl e \<Longrightarrow>
   execute_body rt api node vmid command = (Inl e, [StatusGet node vmid])"
  by (simp add: execute_body_def)

lemma body_not_running:
  "status_current_get api node vmid = Inr vm_status \<Longrightarrow>
   py_getitem rt vm_status ''status'' = Inr st \<Longrightarrow> st \<noteq> PStr ''running'' \<Longrightarrow>
   execute_body rt api node vmid command = (Inl (not_running_error node vmid), [StatusGet node vmid])"
  by (simp add: execute_body_def)

lemma body_running:
  "vm_running rt api node vmid \<Longrightarrow>
   execute_body rt api node vmid command =
     (case api_call rt api node vmid command of
        (Inl e, tr) \<Rightarrow> (Inl e, StatusGet node vmid # tr)
      | (Inr console, tr) \<Rightarrow>
          (case handle_response rt console of
             (vals, warn) \<Rightarrow> (Inr (result_dict vals), StatusGet node vmid # tr @ warn)))"
  by (auto simp add: execute_body_def vm_running_def split: sum.splits)

lemma body_not_running_trace:
  "\<not> vm_running rt api node vmid \<Longrightarrow>
   snd (execute_body rt api node vmid command) = [StatusGet node vmid]"
  by (auto simp add: execute_body_def vm_running_def split: sum.splits)

lemma api_call_submit_raises:
  "agent_exec_post api node vmid command = Inl e \<Longrightarrow>
   api_call rt api node vmid command =
     (Inl (Exn RuntimeError (''API call failed: Failed to start command: '' @ exn_str e)),
      [ExecPost node vmid command])"
  by (simp add: api_call_def two_step_def start_command_def rewrap_def)

lemma api_call_no_pid:
  "agent_exec_post api node vmid command = Inr exec_result \<Longrightarrow>
   py_contains rt ''pid'' exec_result = Inr False \<Longrightarrow>
   api_call rt api node vmid command =
     (Inl (Exn RuntimeError ''API call failed: No PID returned from command execution''),
      [ExecPost node vmid command])"
  by (simp add: api_call_def two_step_def start_command_def rewrap_def)

lemma api_call_submitted:
  "submitted_pid api node vmid command = Some pid \<Longrightarrow>
   api_call rt api node vmid command =
     (rewrap ''API call failed: '' (get_command_status api node vmid pid),
      [ExecPost node vmid command, Sleep 1, ExecStatusGet node vmid pid])"
  by (auto simp add: api_call_def two_step_def start_command_def rewrap_def submitted_pid_def
      split: sum.splits pyval.splits)

lemma api_call_not_submitted:
  "submitted_pid api node vmid command = None \<Longrightarrow>
   \<exists>e. api_call rt api node vmid command = (Inl e, [ExecPost node vmid command])"
proof (cases "agent_exec_post api node vmid command")
  case (Inl e)
  then show ?thesis by (simp add: api_call_submit_raises)
next
  case (Inr x)
  assume none: "submitted_pid api node vmid command = None"
  show ?thesis
  proof (cases x)
    case (PDict d)
    with Inr none have "map_of d ''pid'' = None" by (simp add: submitted_pid_def)
    with Inr PDict show ?thesis by (simp add: api_call_no_pid)
  qed (use Inr in \<open>auto simp add: api_call_def two_step_def start_command_def rewrap_def\<close>)
qed

lemma get_status_raises:
  "agent_exec_status_get api node vmid pid = Inl e \<Longrightarrow>
   get_command_status api node vmid pid =
     Inl (Exn RuntimeError (''Failed to get command status: '' @ exn_str e))"
  by (simp add: get_command_status_def rewrap_def)

lemma get_status_empty:
  "agent_exec_status_get api node vmid pid = Inr console \<Longrightarrow> \<not> py_truthy console \<Longrightarrow>
   get_command_status api node vmid pid =
     Inl (Exn RuntimeError ''Failed to get command status: No response from exec-status'')"
  by (simp add: get_command_status_def rewrap_def)

lemma get_status_answer:
  "agent_exec_status_get api node vmid pid = Inr console \<Longrightarrow> py_truthy console \<Longrightarrow>
   get_command_status api node vmid pid = Inr console"
  by (simp add: get_command_status_def rewrap_def)

lemma execute_polled:
  assumes "vm_running rt api node vmid"
    and "submitted_pid api node vmid command = Some pid"
    and "agent_exec_status_get api node vmid pid = Inr console"
    and "py_truthy console"
  shows "execute_command rt api node vmid command =
     (Inr (result_dict (fst (handle_response rt console))),
      [StatusGet node vmid, ExecPost node vmid command, Sleep 1, ExecStatusGet node vmid pid]
        @ snd (handle_response rt console))"
  using assms
  by (simp add: execute_command_def body_running api_call_submitted get_status_answer rewrap_Inr
      split: prod.splits)

lemma execute_poll_failed:
  assumes "vm_running rt api node vmid"
    and "submitted_pid api node vmid command = Some pid"
    and "get_command_status api node vmid pid = Inl e"
  shows "execute_command rt api node vmid command =
     (Inl (classify node vmid (Exn RuntimeError (''API call failed: '' @ exn_str e))),
      [StatusGet node vmid, ExecPost node vmid command, Sleep 1, ExecStatusGet node vmid pid])"
  using assms
  by (simp add: execute_command_def body_running api_call_submitted rewrap_Inl)

lemma execute_status_raises:
  "status_current_get api node vmid = Inl e \<Longrightarrow>
   execute_command rt api node vmid command = (Inl (classify node vmid e), [StatusGet node vmid])"
  by (simp add: execute_command_def body_status_raises)

lemma execute_submit_raises:
  "vm_running rt api node vmid \<Longrightarrow> agent_exec_post api node vmid command = Inl e \<Longrightarrow>
   execute_command rt api node vmid command =
     (Inl (classify node vmid
        (Exn RuntimeError (''API call failed: Failed to start command: '' @ exn_str e))),
      [StatusGet node vmid, ExecPost node vmid command])"
  by (simp add: execute_command_def body_running api_call_submit_raises)

lemma classify_wrapped_start:
  "classify node vmid (Exn RuntimeError (''API call failed: Failed to start command: '' @ m)) =
     (if mentions_not_found m then not_found_error node vmid
      else execution_failed_error (''API call failed: Failed to start command: '' @ m))"
  using mentions_api_call_failed [of "''Failed to start command: '' @ m"]
    mentions_failed_to_start [of m]
  by (simp add: classify_def execution_failed_error_def)

lemma classify_wrapped_status:
  "classify node vmid (Exn RuntimeError (''API call failed: Failed to get command status: '' @ m)) =
     (if mentions_not_found m then not_found_error node vmid else status_fetch_error m)"
  using mentions_api_call_failed [of "''Failed to get command status: '' @ m"]
    mentions_failed_to_get [of m]
  by (simp add: classify_def execution_failed_error_def status_fetch_error_def)

lemma execute_poll_raises:
  assumes "vm_running rt api node vmid"
    and "submitted_pid api node vmid command = Some pid"
    and "agent_exec_status_get api node vmid pid = Inl e"
  shows "fst (execute_command rt api node vmid command) =
     Inl (if mentions_not_found (exn_str e) then not_found_error node vmid
          else status_fetch_error (exn_str e))"
  using assms classify_wrapped_status [of node vmid "exn_str e"]
  by (simp add: execute_poll_failed get_status_raises)

lemma execute_poll_empty:
  assumes "vm_running rt api node vmid"
    and "submitted_pid api node vmid command = Some pid"
    and "agent_exec_status_get api node vmid pid = Inr console"
    and "\<not> py_truthy console"
  shows "fst (execute_command rt api node vmid command) =
     Inl (status_fetch_error ''No response from exec-status'')"
proof -
  have "\<not> mentions_not_found ''No response from exec-status''"
    by code_simp
  with assms classify_wrapped_status [of node vmid "''No response from exec-status''"]
  show ?thesis
    by (simp add: execute_poll_failed get_status_empty)
qed

section \<open>Properties of \<open>execute_command\<close>\<close>

text \<open>
  C1, as the code has it. A collaborator failure whose message contains "not found" in any
  letter case leaves the call as the \<open>ValueError\<close> "VM ... not found on node ..." when it
  is raised by the submit call or by the poll call, whatever its class, and when it is
  raised by the status query with a class other than \<open>ValueError\<close>. A \<open>ValueError\<close>
  raised by the status query leaves the call as it is, and so does the \<open>ValueError\<close> of
  a VM that is not running.
\<close>

theorem not_found_reclassified_except_value_error_of_status_check:
  "(status_current_get api node vmid = Inl e \<and> exn_class e \<noteq> ValueError
      \<and> mentions_not_found (exn_str e) \<longrightarrow>
        fst (execute_command rt api node vmid command) = Inl (not_found_error node vmid))
   \<and> (vm_running rt api node vmid \<and> agent_exec_post api node vmid command = Inl e
      \<and> mentions_not_found (exn_str e) \<longrightarrow>
        fst (execute_command rt api node vmid command) = Inl (not_found_error node vmid))
   \<and> (vm_running rt api node vmid \<and> submitted_pid api node vmid command = Some pid
      \<and> agent_exec_status_get api node vmid pid = Inl e \<and> mentions_not_found (exn_str e) \<longrightarrow>
        fst (execute_command rt api node vmid command) = Inl (not_found_error node vmid))
   \<and> (status_current_get api node vmid = Inl e \<and> exn_class e = ValueError \<longrightarrow>
        fst (execute_command rt api node vmid command) = Inl e)
   \<and> (status_current_get api node vmid = Inr vm_status
      \<and> py_getitem rt vm_status ''status'' = Inr st \<and> st \<noteq> PStr ''running'' \<longrightarrow>
        fst (execute_command rt api node vmid command) = Inl (not_running_error node vmid))"
proof (intro conjI impI)
  assume "status_current_get api node vmid = Inl e \<and> exn_class e \<noteq> ValueError
      \<and> mentions_not_found (exn_str e)"
  then show "fst (execute_command rt api node vmid command) = Inl (not_found_error node vmid)"
    by (simp add: execute_status_raises classify_def)
next
  assume "vm_running rt api node vmid \<and> agent_exec_post api node vmid command = Inl e
      \<and> mentions_not_found (exn_str e)"
  then show "fst (execute_command rt api node vmid command) = Inl (not_found_error node vmid)"
    using classify_wrapped_start [of node vmid "exn_str e"]
    by (simp add: execute_submit_raises)
next
  assume "vm_running rt api node vmid \<and> submitted_pid api node vmid command = Some pid
      \<and> agent_exec_status_get api node vmid pid = Inl e \<and> mentions_not_found (exn_str e)"
  then show "fst (execute_command rt api node vmid command) = Inl (not_found_error node vmid)"
    by (simp add: execute_poll_raises)
next
  assume "status_current_get api node vmid = Inl e \<and> exn_class e = ValueError"
  then show "fst (execute_command rt api node vmid command) = Inl e"
    by (simp add: execute_status_raises classify_def)
next
  assume "status_current_get api node vmid = Inr vm_status
      \<and> py_getitem rt vm_status ''status'' = Inr st \<and> st \<noteq> PStr ''running''"
  then show "fst (execute_command rt api node vmid command) = Inl (not_running_error node vmid)"
    by (simp add: execute_command_def body_not_running classify_def not_running_error_def)
qed

theorem not_found_reclassified_except_value_error_of_status_check_witness:
  "fst (execute_command demo_runtime
          (scripted_api (Inl (Exn (OtherException ''ResourceException'') ''Not Found'')) started
             (Inr (PStr ''done''))) ''pve'' ''100'' ''ls'')
     = Inl (Exn ValueError ''VM 100 not found on node pve'')
   \<and> fst (execute_command demo_runtime
          (scripted_api running_status (Inl (Exn (OtherException ''ResourceException'') ''Not Found''))
             (Inr (PStr ''done''))) ''pve'' ''100'' ''ls'')
     = Inl (Exn ValueError ''VM 100 not found on node pve'')
   \<and> fst (execute_command demo_runtime
          (scripted_api running_status started
             (Inl (Exn (OtherException ''ResourceException'') ''Not Found''))) ''pve'' ''100'' ''ls'')
     = Inl (Exn ValueError ''VM 100 not found on node pve'')
   \<and> fst (execute_command demo_runtime
          (scripted_api (Inl (Exn ValueError ''Not Found'')) started
             (Inr (PStr ''done''))) ''pve'' ''100'' ''ls'')
     = Inl (Exn ValueError ''Not Found'')
   \<and> fst (execute_command demo_runtime
          (scripted_api (Inr (PDict [(''status'', PStr ''stopped'')])) started
             (Inr (PStr ''done''))) ''pve'' ''100'' ''ls'')
     = Inl (Exn ValueError ''VM 100 on node pve is not running'')"
proof -
  have run: "vm_running demo_runtime (scripted_api running_status ex po) ''pve'' ''100''" for ex po
    by (simp add: vm_running_def scripted_api_def running_status_def)
  have sub: "submitted_pid (scripted_api st started po) ''pve'' ''100'' ''ls'' = Some (PInt 4711)"
    for st po
    by (simp add: submitted_pid_def scripted_api_def started_def)
  have m: "mentions_not_found ''Not Found''"
    by code_simp
  show ?thesis
    using m run sub
      not_found_reclassified_except_value_error_of_status_check
        [of "scripted_api (Inl (Exn (OtherException ''ResourceException'') ''Not Found'')) started
               (Inr (PStr ''done''))"
            "''pve''" "''100''" "Exn (OtherException ''ResourceException'') ''Not Found''"
            demo_runtime "''ls''" "PInt 4711" PNone PNone]
      not_found_reclassified_except_value_error_of_status_check
        [of "scripted_api running_status
               (Inl (Exn (OtherException ''ResourceException'') ''Not Found'')) (Inr (PStr ''done''))"
            "''pve''" "''100''" "Exn (OtherException ''ResourceException'') ''Not Found''"
            demo_runtime "''ls''" "PInt 4711" PNone PNone]
      not_found_reclassified_except_value_error_of_status_check
        [of "scripted_api running_status started
               (Inl (Exn (OtherException ''ResourceException'') ''Not Found''))"
            "''pve''" "''100''" "Exn (OtherException ''ResourceException'') ''Not Found''"
            demo_runtime "''ls''" "PInt 4711" PNone PNone]
      not_found_reclassified_except_value_error_of_status_check
        [of "scripted_api (Inl (Exn ValueError ''Not Found'')) started (Inr (PStr ''done''))"
            "''pve''" "''100''" "Exn ValueError ''Not Found''"
            demo_runtime "''ls''" "PInt 4711" PNone PNone]
      not_found_reclassified_except_value_error_of_status_check
        [of "scripted_api (Inr (PDict [(''status'', PStr ''stopped'')])) started
               (Inr (PStr ''done''))"
            "''pve''" "''100''" "Exn ValueError []"
            demo_runtime "''ls''" "PInt 4711" "PDict [(''status'', PStr ''stopped'')]"
            "PStr ''stopped''"]
    by (simp add: scripted_api_def not_found_error_def not_running_error_def)
qed

text \<open>
  C1 as stated fails: a status query that raises a \<open>ValueError\<close> with the message
  "Not Found" is not turned into the \<open>ValueError\<close> "VM 100 not found on node pve"; the
  caller receives the collaborator's exception as it was raised.
\<close>

theorem status_value_error_not_found_counterexample:
  "fst (execute_command demo_runtime
          (scripted_api (Inl (Exn ValueError ''Not Found'')) started (Inr (PStr ''done'')))
          ''pve'' ''100'' ''ls'')
     = Inl (Exn ValueError ''Not Found'')
   \<and> mentions_not_found ''Not Found''
   \<and> Exn ValueError ''Not Found'' \<noteq> not_found_error ''pve'' ''100''"
proof -
  have "mentions_not_found ''Not Found''"
    by code_simp
  then show ?thesis
    by (simp add: execute_command_def execute_body_def scripted_api_def classify_def
        not_found_error_def)
qed

text \<open>
  C2. Whenever the status query reports a status other than \<open>"running"\<close>, the call fails
  with the \<open>ValueError\<close> "VM ... is not running", and the status query is the only
  collaborator operation invoked: neither the submit nor the poll operation is called.
\<close>

theorem not_running_fails_before_submit:
  assumes "status_current_get api node vmid = Inr vm_status"
    and "py_getitem rt vm_status ''status'' = Inr st"
    and "st \<noteq> PStr ''running''"
  shows "fst (execute_command rt api node vmid command) = Inl (not_running_error node vmid)
       \<and> snd (execute_command rt api node vmid command) = [StatusGet node vmid]
       \<and> filter is_submit (snd (execute_command rt api node vmid command)) = []
       \<and> filter is_poll (snd (execute_command rt api node vmid command)) = []"
  using assms
  by (simp add: execute_command_def body_not_running classify_def not_running_error_def)

theorem not_running_fails_before_submit_witness:
  "fst (execute_command demo_runtime
          (scripted_api (Inr (PDict [(''status'', PStr ''stopped'')])) started
             (Inr (PStr ''done''))) ''pve'' ''100'' ''ls'')
     = Inl (Exn ValueError ''VM 100 on node pve is not running'')
   \<and> snd (execute_command demo_runtime
          (scripted_api (Inr (PDict [(''status'', PStr ''stopped'')])) started
             (Inr (PStr ''done''))) ''pve'' ''100'' ''ls'')
     = [StatusGet ''pve'' ''100'']"
  using not_running_fails_before_submit
    [of "scripted_api (Inr (PDict [(''status'', PStr ''stopped'')])) started (Inr (PStr ''done''))"
        "''pve''" "''100''" "PDict [(''status'', PStr ''stopped'')]" demo_runtime "PStr ''stopped''" "''ls''"]
  by (simp add: scripted_api_def not_running_error_def)

text \<open>
  C3. After a successful submission, every truthy poll response, a dictionary or not, makes
  the call return a dictionary whose \<open>success\<close> is \<open>True\<close>, whatever the response
  holds under \<open>exitcode\<close> and \<open>exited\<close>.
\<close>

theorem truthy_poll_response_gives_success:
  assumes "vm_running rt api node vmid"
    and "submitted_pid api node vmid command = Some pid"
    and "agent_exec_status_get api node vmid pid = Inr console"
    and "py_truthy console"
  shows "\<exists>res. fst (execute_command rt api node vmid command) = Inr (PDict res)
             \<and> map_of res ''success'' = Some (PBool True)"
  using assms
  by (cases "fst (handle_response rt console)") (simp add: execute_polled result_dict_def)

theorem truthy_poll_response_gives_success_witness:
  "\<exists>res. fst (execute_command demo_runtime
            (scripted_api running_status started
               (Inr (PDict [(''exited'', PInt 0), (''exitcode'', PInt 3)])))
            ''pve'' ''100'' ''sleep 60'') = Inr (PDict res)
         \<and> map_of res ''success'' = Some (PBool True)"
proof -
  have "vm_running demo_runtime
          (scripted_api running_status started
             (Inr (PDict [(''exited'', PInt 0), (''exitcode'', PInt 3)]))) ''pve'' ''100''"
    by (simp add: vm_running_def scripted_api_def running_status_def)
  moreover have "submitted_pid
          (scripted_api running_status started
             (Inr (PDict [(''exited'', PInt 0), (''exitcode'', PInt 3)])))
          ''pve'' ''100'' ''sleep 60'' = Some (PInt 4711)"
    by (simp add: submitted_pid_def scripted_api_def started_def)
  moreover have "agent_exec_status_get
          (scripted_api running_status started
             (Inr (PDict [(''exited'', PInt 0), (''exitcode'', PInt 3)])))
          ''pve'' ''100'' (PInt 4711) = Inr (PDict [(''exited'', PInt 0), (''exitcode'', PInt 3)])"
    by (simp add: scripted_api_def)
  moreover have "py_truthy (PDict [(''exited'', PInt 0), (''exitcode'', PInt 3)])"
    by simp
  ultimately show ?thesis
    by (rule truthy_poll_response_gives_success)
qed

text \<open>
  C4. On a dictionary the response handling takes \<open>output\<close> from \<open>out-data\<close> (the empty
  string when the key is absent), \<open>error\<close> from \<open>err-data\<close> (the empty string when
  absent) and \<open>exit_code\<close> from \<open>exitcode\<close> (0 when absent); and when such a dictionary
  is the (non-empty) poll response of a successful submission, the call returns these three
  with \<open>success = True\<close>. The response
  \<open>{out-data: "hi", err-data: "", exitcode: 0, exited: 1}\<close> is the witness.
\<close>

theorem structured_response_fields:
  "fst (handle_response rt (PDict d)) =
     ((case map_of d ''out-data'' of None \<Rightarrow> PStr [] | Some v \<Rightarrow> v),
      (case map_of d ''err-data'' of None \<Rightarrow> PStr [] | Some v \<Rightarrow> v),
      (case map_of d ''exitcode'' of None \<Rightarrow> PInt 0 | Some v \<Rightarrow> v))
   \<and> (vm_running rt api node vmid \<and> submitted_pid api node vmid command = Some pid
        \<and> agent_exec_status_get api node vmid pid = Inr (PDict d) \<and> d \<noteq> [] \<longrightarrow>
      fst (execute_command rt api node vmid command) =
        Inr (PDict [(''success'', PBool True),
                    (''output'', case map_of d ''out-data'' of None \<Rightarrow> PStr [] | Some v \<Rightarrow> v),
                    (''error'', case map_of d ''err-data'' of None \<Rightarrow> PStr [] | Some v \<Rightarrow> v),
                    (''exit_code'', case map_of d ''exitcode'' of None \<Rightarrow> PInt 0 | Some v \<Rightarrow> v)]))"
proof (intro conjI impI)
  show f: "fst (handle_response rt (PDict d)) =
     ((case map_of d ''out-data'' of None \<Rightarrow> PStr [] | Some v \<Rightarrow> v),
      (case map_of d ''err-data'' of None \<Rightarrow> PStr [] | Some v \<Rightarrow> v),
      (case map_of d ''exitcode'' of None \<Rightarrow> PInt 0 | Some v \<Rightarrow> v))"
    by (simp add: handle_response_def dict_get_def)
  assume a: "vm_running rt api node vmid \<and> submitted_pid api node vmid command = Some pid
        \<and> agent_exec_status_get api node vmid pid = Inr (PDict d) \<and> d \<noteq> []"
  then have "py_truthy (PDict d)" by simp
  with a have "fst (execute_command rt api node vmid command) =
      Inr (result_dict (fst (handle_response rt (PDict d))))"
    by (simp add: execute_polled)
  then show "fst (execute_command rt api node vmid command) =
        Inr (PDict [(''success'', PBool True),
                    (''output'', case map_of d ''out-data'' of None \<Rightarrow> PStr [] | Some v \<Rightarrow> v),
                    (''error'', case map_of d ''err-data'' of None \<Rightarrow> PStr [] | Some v \<Rightarrow> v),
                    (''exit_code'', case map_of d ''exitcode'' of None \<Rightarrow> PInt 0 | Some v \<Rightarrow> v)])"
    unfolding f by (simp add: result_dict_def)
qed

theorem structured_response_fields_witness:
  "fst (execute_command demo_runtime
          (scripted_api running_status started
             (Inr (PDict [(''out-data'', PStr ''hi''), (''err-data'', PStr []),
                          (''exitcode'', PInt 0), (''exited'', PInt 1)])))
          ''pve'' ''100'' ''echo hi'')
     = Inr (PDict [(''success'', PBool True), (''output'', PStr ''hi''),
                   (''error'', PStr []), (''exit_code'', PInt 0)])"
proof -
  have "vm_running demo_runtime
          (scripted_api running_status started
             (Inr (PDict [(''out-data'', PStr ''hi''), (''err-data'', PStr []),
                          (''exitcode'', PInt 0), (''exited'', PInt 1)]))) ''pve'' ''100''"
    by (simp add: vm_running_def scripted_api_def running_status_def)
  moreover have "submitted_pid
          (scripted_api running_status started
             (Inr (PDict [(''out-data'', PStr ''hi''), (''err-data'', PStr []),
                          (''exitcode'', PInt 0), (''exited'', PInt 1)])))
          ''pve'' ''100'' ''echo hi'' = Some (PInt 4711)"
    by (simp add: submitted_pid_def scripted_api_def started_def)
  ultimately show ?thesis
    using structured_response_fields
      [of demo_runtime
          "[(''out-data'', PStr ''hi''), (''err-data'', PStr []),
            (''exitcode'', PInt 0), (''exited'', PInt 1)]"
          "scripted_api running_status started
             (Inr (PDict [(''out-data'', PStr ''hi''), (''err-data'', PStr []),
                          (''exitcode'', PInt 0), (''exited'', PInt 1)]))"
          "''pve''" "''100''" "''echo hi''" "PInt 4711"]
    by (simp add: scripted_api_def)
qed

text \<open>
  C5. When the VM is running and the submission returns a process identifier, the effects of
  the call are, in this order, the status query, the submit call, one delay of 1, and the poll
  call for that identifier (followed by at most the warning): the delay occurs exactly once,
  after the submit and before the poll. When the VM is not running or the submission returns
  no process identifier (it raises, or its response has none), there is no delay at all.
\<close>

theorem settle_delay_once_between_submit_and_poll:
  "(vm_running rt api node vmid \<and> submitted_pid api node vmid command = Some pid \<longrightarrow>
      (snd (execute_command rt api node vmid command)
         = [StatusGet node vmid, ExecPost node vmid command, Sleep 1, ExecStatusGet node vmid pid]
       \<or> snd (execute_command rt api node vmid command)
         = [StatusGet node vmid, ExecPost node vmid command, Sleep 1, ExecStatusGet node vmid pid,
            LogWarning ''Command may not have completed'']))
   \<and> (\<not> vm_running rt api node vmid \<or> submitted_pid api node vmid command = None \<longrightarrow>
        filter is_sleep (snd (execute_command rt api node vmid command)) = [])"
proof (intro conjI impI)
  assume a: "vm_running rt api node vmid \<and> submitted_pid api node vmid command = Some pid"
  show "snd (execute_command rt api node vmid command)
         = [StatusGet node vmid, ExecPost node vmid command, Sleep 1, ExecStatusGet node vmid pid]
       \<or> snd (execute_command rt api node vmid command)
         = [StatusGet node vmid, ExecPost node vmid command, Sleep 1, ExecStatusGet node vmid pid,
            LogWarning ''Command may not have completed'']"
  proof (cases "get_command_status api node vmid pid")
    case (Inl e)
    with a show ?thesis by (simp add: execute_poll_failed)
  next
    case (Inr console)
    then have "agent_exec_status_get api node vmid pid = Inr console \<and> py_truthy console"
      by (auto simp add: get_command_status_def rewrap_def split: sum.splits if_splits)
    with a have "snd (execute_command rt api node vmid command) =
      [StatusGet node vmid, ExecPost node vmid command, Sleep 1, ExecStatusGet node vmid pid]
        @ snd (handle_response rt console)"
      by (simp add: execute_polled)
    moreover have "snd (handle_response rt console) = []
        \<or> snd (handle_response rt console) = [LogWarning ''Command may not have completed'']"
      by (cases console) (simp_all add: handle_response_def)
    ultimately show ?thesis by auto
  qed
next
  assume b: "\<not> vm_running rt api node vmid \<or> submitted_pid api node vmid command = None"
  show "filter is_sleep (snd (execute_command rt api node vmid command)) = []"
  proof (cases "vm_running rt api node vmid")
    case False
    then have "snd (execute_body rt api node vmid command) = [StatusGet node vmid]"
      by (rule body_not_running_trace)
    then show ?thesis
      by (auto simp add: execute_command_def split: prod.splits sum.splits)
  next
    case True
    with b have "submitted_pid api node vmid command = None" by simp
    then obtain e where "api_call rt api node vmid command = (Inl e, [ExecPost node vmid command])"
      using api_call_not_submitted by blast
    with True show ?thesis
      by (simp add: execute_command_def body_running)
  qed
qed

theorem settle_delay_once_between_submit_and_poll_witness:
  "snd (execute_command demo_runtime
          (scripted_api running_status started (Inr (PDict [(''exited'', PInt 1)])))
          ''pve'' ''100'' ''ls'')
     = [StatusGet ''pve'' ''100'', ExecPost ''pve'' ''100'' ''ls'', Sleep 1,
        ExecStatusGet ''pve'' ''100'' (PInt 4711)]
   \<and> filter is_sleep (snd (execute_command demo_runtime
          (scripted_api running_status (Inl (Exn (OtherException ''ResourceException'') ''agent down''))
             (Inr (PStr ''done''))) ''pve'' ''100'' ''ls'')) = []"
proof -
  have "vm_running demo_runtime
          (scripted_api running_status started (Inr (PDict [(''exited'', PInt 1)]))) ''pve'' ''100''
      \<and> submitted_pid (scripted_api running_status started (Inr (PDict [(''exited'', PInt 1)])))
          ''pve'' ''100'' ''ls'' = Some (PInt 4711)"
    by (simp add: vm_running_def submitted_pid_def scripted_api_def running_status_def started_def)
  moreover have "snd (execute_command demo_runtime
          (scripted_api running_status started (Inr (PDict [(''exited'', PInt 1)])))
          ''pve'' ''100'' ''ls'')
     \<noteq> [StatusGet ''pve'' ''100'', ExecPost ''pve'' ''100'' ''ls'', Sleep 1,
        ExecStatusGet ''pve'' ''100'' (PInt 4711), LogWarning ''Command may not have completed'']"
    by (simp add: execute_command_def execute_body_def api_call_def two_step_def start_command_def
        get_command_status_def rewrap_def handle_response_def dict_get_def scripted_api_def
        running_status_def started_def result_dict_def)
  moreover have "submitted_pid (scripted_api running_status
          (Inl (Exn (OtherException ''ResourceException'') ''agent down'')) (Inr (PStr ''done'')))
          ''pve'' ''100'' ''ls'' = None"
    by (simp add: submitted_pid_def scripted_api_def)
  ultimately show ?thesis
    using settle_delay_once_between_submit_and_poll
      [of demo_runtime "scripted_api running_status started (Inr (PDict [(''exited'', PInt 1)]))"
          "''pve''" "''100''" "''ls''" "PInt 4711"]
      settle_delay_once_between_submit_and_poll
      [of demo_runtime "scripted_api running_status
          (Inl (Exn (OtherException ''ResourceException'') ''agent down'')) (Inr (PStr ''done''))"
          "''pve''" "''100''" "''ls''" "PNone"]
    by simp
qed

text \<open>
  C6. Whenever the VM is running and the submit call returns a response in which the test
  \<open>'pid' not in exec_result\<close> holds, the call fails with the \<open>RuntimeError\<close> that
  carries "No PID returned from command execution", after the status query and the submit
  call only: the poll operation is never invoked.
\<close>

theorem no_pid_fails_before_poll:
  assumes "vm_running rt api node vmid"
    and "agent_exec_post api node vmid command = Inr exec_result"
    and "py_contains rt ''pid'' exec_result = Inr False"
  shows "fst (execute_command rt api node vmid command) = Inl execution_start_error
       \<and> snd (execute_command rt api node vmid command)
           = [StatusGet node vmid, ExecPost node vmid command]
       \<and> filter is_poll (snd (execute_command rt api node vmid command)) = []"
  using assms no_pid_not_mentions
  by (simp add: execute_command_def body_running api_call_no_pid classify_def
      execution_start_error_def execution_failed_error_def)

theorem no_pid_fails_before_poll_witness:
  "fst (execute_command demo_runtime
          (scripted_api running_status (Inr (PDict [(''started'', PBool True)]))
             (Inr (PStr ''done''))) ''pve'' ''100'' ''ls'')
     = Inl (Exn RuntimeError
         ''Failed to execute command: API call failed: No PID returned from command execution'')
   \<and> snd (execute_command demo_runtime
          (scripted_api running_status (Inr (PDict [(''started'', PBool True)]))
             (Inr (PStr ''done''))) ''pve'' ''100'' ''ls'')
     = [StatusGet ''pve'' ''100'', ExecPost ''pve'' ''100'' ''ls'']"
  using no_pid_fails_before_poll
    [of demo_runtime
        "scripted_api running_status (Inr (PDict [(''started'', PBool True)])) (Inr (PStr ''done''))"
        "''pve''" "''100''" "''ls''" "PDict [(''started'', PBool True)]"]
  by (simp add: scripted_api_def running_status_def vm_running_def execution_start_error_def
      execution_failed_error_def)

text \<open>
  C7, as the code has it. After a successful submission, a falsy poll response (\<open>None\<close>,
  an empty string, list or dictionary, \<open>0\<close>, \<open>False\<close>) fails with the \<open>RuntimeError\<close>
  that carries "Failed to get command status: No response from exec-status". A failure
  raised by the poll call is wrapped into the same kind, carrying its message, unless that
  message contains "not found" in any letter case: then the call fails with the
  \<open>ValueError\<close> "VM ... not found on node ..." instead.
\<close>

theorem poll_failure_is_status_fetch_error_unless_not_found:
  assumes "vm_running rt api node vmid"
    and "submitted_pid api node vmid command = Some pid"
  shows "(agent_exec_status_get api node vmid pid = Inr console \<and> \<not> py_truthy console \<longrightarrow>
            fst (execute_command rt api node vmid command)
              = Inl (status_fetch_error ''No response from exec-status''))
       \<and> (agent_exec_status_get api node vmid pid = Inl e \<and> \<not> mentions_not_found (exn_str e) \<longrightarrow>
            fst (execute_command rt api node vmid command) = Inl (status_fetch_error (exn_str e)))
       \<and> (agent_exec_status_get api node vmid pid = Inl e \<and> mentions_not_found (exn_str e) \<longrightarrow>
            fst (execute_command rt api node vmid command) = Inl (not_found_error node vmid))"
  using assms
  by (simp add: execute_poll_raises execute_poll_empty)

theorem poll_failure_is_status_fetch_error_unless_not_found_witness:
  "fst (execute_command demo_runtime (scripted_api running_status started (Inr PNone))
          ''pve'' ''100'' ''ls'')
     = Inl (Exn RuntimeError ''Failed to execute command: API call failed: Failed to get command status: No response from exec-status'')
   \<and> fst (execute_command demo_runtime
          (scripted_api running_status started (Inl (Exn (OtherException ''ReadTimeout'') ''timed out'')))
          ''pve'' ''100'' ''ls'')
     = Inl (Exn RuntimeError ''Failed to execute command: API call failed: Failed to get command status: timed out'')
   \<and> fst (execute_command demo_runtime
          (scripted_api running_status started (Inl (Exn (OtherException ''ResourceException'') ''Not Found'')))
          ''pve'' ''100'' ''ls'')
     = Inl (Exn ValueError ''VM 100 not found on node pve'')"
proof -
  have run: "vm_running demo_runtime (scripted_api running_status started po) ''pve'' ''100''" for po
    by (simp add: vm_running_def scripted_api_def running_status_def)
  have sub: "submitted_pid (scripted_api running_status started po)
      ''pve'' ''100'' ''ls'' = Some (PInt 4711)" for po
    by (simp add: submitted_pid_def scripted_api_def started_def)
  have m1: "\<not> mentions_not_found ''timed out''" by code_simp
  have m2: "mentions_not_found ''Not Found''" by code_simp
  show ?thesis
    using poll_failure_is_status_fetch_error_unless_not_found
      [OF run sub, of "Inr PNone" PNone]
      poll_failure_is_status_fetch_error_unless_not_found
      [OF run sub, of "Inl (Exn (OtherException ''ReadTimeout'') ''timed out'')" _
          "Exn (OtherException ''ReadTimeout'') ''timed out''"]
      poll_failure_is_status_fetch_error_unless_not_found
      [OF run sub, of "Inl (Exn (OtherException ''ResourceException'') ''Not Found'')" _
          "Exn (OtherException ''ResourceException'') ''Not Found''"]
      m1 m2
    by (simp add: scripted_api_def status_fetch_error_def execution_failed_error_def
        not_found_error_def)
qed

text \<open>
  C7 as stated fails: a poll call that raises "500 Internal Server Error: VM 100 not found"
  does not end in the wrapped \<open>RuntimeError\<close> but in the \<open>ValueError\<close> of a VM
  that was not found.
\<close>

theorem poll_failure_not_found_counterexample:
  "fst (execute_command demo_runtime
          (scripted_api running_status started
             (Inl (Exn (OtherException ''ResourceException'') ''500 Internal Server Error: VM 100 not found'')))
          ''pve'' ''100'' ''ls'')
     = Inl (Exn ValueError ''VM 100 not found on node pve'')
   \<and> Exn ValueError ''VM 100 not found on node pve''
       \<noteq> status_fetch_error ''500 Internal Server Error: VM 100 not found''"
proof -
  have "mentions_not_found ''API call failed: Failed to get command status: 500 Internal Server Error: VM 100 not found''"
    by code_simp
  then show ?thesis
    by (simp add: execute_command_def execute_body_def api_call_def two_step_def start_command_def
        get_command_status_def rewrap_def scripted_api_def running_status_def started_def
        classify_def not_found_error_def status_fetch_error_def execution_failed_error_def)
qed

text \<open>
  C8, as the code has it. After a successful submission, every truthy poll response that is
  not a dictionary makes the call return \<open>success = True\<close>, \<open>output = str(response)\<close>,
  \<open>error = ""\<close> and \<open>exit_code = 0\<close>. The response \<open>"done"\<close> is the witness.
\<close>

theorem opaque_response_is_rendered:
  assumes "vm_running rt api node vmid"
    and "submitted_pid api node vmid command = Some pid"
    and "agent_exec_status_get api node vmid pid = Inr console"
    and "py_truthy console"
    and "\<not> is_dict console"
  shows "fst (execute_command rt api node vmid command) =
           Inr (PDict [(''success'', PBool True), (''output'', PStr (py_str rt console)),
                       (''error'', PStr []), (''exit_code'', PInt 0)])"
proof -
  from assms(5) have "fst (handle_response rt console) = (PStr (py_str rt console), PStr [], PInt 0)"
    by (cases console) (simp_all add: handle_response_def)
  with assms(1-4) show ?thesis
    by (simp add: execute_polled result_dict_def)
qed

theorem opaque_response_is_rendered_witness:
  "fst (execute_command demo_runtime (scripted_api running_status started (Inr (PStr ''done'')))
          ''pve'' ''100'' ''ls'')
     = Inr (PDict [(''success'', PBool True), (''output'', PStr ''done''),
                   (''error'', PStr []), (''exit_code'', PInt 0)])"
proof -
  have "vm_running demo_runtime (scripted_api running_status started (Inr (PStr ''done'')))
          ''pve'' ''100''"
    by (simp add: vm_running_def scripted_api_def running_status_def)
  moreover have "submitted_pid (scripted_api running_status started (Inr (PStr ''done'')))
          ''pve'' ''100'' ''ls'' = Some (PInt 4711)"
    by (simp add: submitted_pid_def scripted_api_def started_def)
  moreover have "agent_exec_status_get (scripted_api running_status started (Inr (PStr ''done'')))
          ''pve'' ''100'' (PInt 4711) = Inr (PStr ''done'')"
    by (simp add: scripted_api_def)
  moreover have "py_truthy (PStr ''done'')" by simp
  moreover have "\<not> is_dict (PStr ''done'')" by simp
  ultimately show ?thesis
    using opaque_response_is_rendered
      [of demo_runtime "scripted_api running_status started (Inr (PStr ''done''))"
          "''pve''" "''100''" "''ls''" "PInt 4711" "PStr ''done''"]
    by simp
qed

text \<open>
  C8 as stated fails: the empty string is a poll response that is not a dictionary, and the
  call does not return on it; it raises the \<open>RuntimeError\<close> of a missing response.
\<close>

theorem opaque_empty_response_counterexample:
  "fst (execute_command demo_runtime (scripted_api running_status started (Inr (PStr [])))
          ''pve'' ''100'' ''ls'')
     = Inl (Exn RuntimeError ''Failed to execute command: API call failed: Failed to get command status: No response from exec-status'')"
proof -
  have "\<not> mentions_not_found ''API call failed: Failed to get command status: No response from exec-status''"
    by (rule no_response_not_mentions)
  then show ?thesis
    by (simp add: execute_command_def execute_body_def api_call_def two_step_def start_command_def
        get_command_status_def rewrap_def scripted_api_def running_status_def started_def
        classify_def)
qed

text \<open>
  C9, as the code has it. A \<open>ValueError\<close> raised by the status check, which is the
  status query or the test for a running VM, leaves the call unchanged. A \<open>ValueError\<close>
  raised by the submit call or by the poll call does not: the inner handlers catch every
  \<open>Exception\<close>, so it is wrapped into a \<open>RuntimeError\<close> like any other failure of that
  step, or replaced by "VM ... not found on node ..." when its message contains "not found".
\<close>

theorem value_error_unchanged_from_status_check_only:
  "(status_current_get api node vmid = Inl e \<and> exn_class e = ValueError \<longrightarrow>
        fst (execute_command rt api node vmid command) = Inl e)
   \<and> (status_current_get api node vmid = Inr vm_status
      \<and> py_getitem rt vm_status ''status'' = Inr st \<and> st \<noteq> PStr ''running'' \<longrightarrow>
        fst (execute_command rt api node vmid command) = Inl (not_running_error node vmid))
   \<and> (vm_running rt api node vmid \<and> agent_exec_post api node vmid command = Inl e
      \<and> exn_class e = ValueError \<longrightarrow>
        fst (execute_command rt api node vmid command) =
          Inl (if mentions_not_found (exn_str e) then not_found_error node vmid
               else execution_failed_error
                      (''API call failed: Failed to start command: '' @ exn_str e)))
   \<and> (vm_running rt api node vmid \<and> submitted_pid api node vmid command = Some pid
      \<and> agent_exec_status_get api node vmid pid = Inl e \<and> exn_class e = ValueError \<longrightarrow>
        fst (execute_command rt api node vmid command) =
          Inl (if mentions_not_found (exn_str e) then not_found_error node vmid
               else status_fetch_error (exn_str e)))"
proof (intro conjI impI)
  assume "status_current_get api node vmid = Inl e \<and> exn_class e = ValueError"
  then show "fst (execute_command rt api node vmid command) = Inl e"
    by (simp add: execute_status_raises classify_def)
next
  assume "status_current_get api node vmid = Inr vm_status
      \<and> py_getitem rt vm_status ''status'' = Inr st \<and> st \<noteq> PStr ''running''"
  then show "fst (execute_command rt api node vmid command) = Inl (not_running_error node vmid)"
    by (simp add: execute_command_def body_not_running classify_def not_running_error_def)
next
  assume "vm_running rt api node vmid \<and> agent_exec_post api node vmid command = Inl e
      \<and> exn_class e = ValueError"
  then show "fst (execute_command rt api node vmid command) =
          Inl (if mentions_not_found (exn_str e) then not_found_error node vmid
               else execution_failed_error
                      (''API call failed: Failed to start command: '' @ exn_str e))"
    using classify_wrapped_start [of node vmid "exn_str e"]
    by (simp add: execute_submit_raises)
next
  assume "vm_running rt api node vmid \<and> submitted_pid api node vmid command = Some pid
      \<and> agent_exec_status_get api node vmid pid = Inl e \<and> exn_class e = ValueError"
  then show "fst (execute_command rt api node vmid command) =
          Inl (if mentions_not_found (exn_str e) then not_found_error node vmid
               else status_fetch_error (exn_str e))"
    by (simp add: execute_poll_raises)
qed

theorem value_error_unchanged_from_status_check_only_witness:
  "fst (execute_command demo_runtime
          (scripted_api (Inl (Exn ValueError ''URL has an invalid label.'')) started
             (Inr (PStr ''done''))) ''pve'' ''100'' ''ls'')
     = Inl (Exn ValueError ''URL has an invalid label.'')
   \<and> fst (execute_command demo_runtime
          (scripted_api (Inr (PDict [(''status'', PStr ''paused'')])) started
             (Inr (PStr ''done''))) ''pve'' ''100'' ''ls'')
     = Inl (Exn ValueError ''VM 100 on node pve is not running'')
   \<and> fst (execute_command demo_runtime
          (scripted_api running_status (Inl (Exn ValueError ''URL has an invalid label.''))
             (Inr (PStr ''done''))) ''pve'' ''100'' ''ls'')
     = Inl (Exn RuntimeError ''Failed to execute command: API call failed: Failed to start command: URL has an invalid label.'')
   \<and> fst (execute_command demo_runtime
          (scripted_api running_status started
             (Inl (Exn ValueError ''URL has an invalid label.''))) ''pve'' ''100'' ''ls'')
     = Inl (Exn RuntimeError ''Failed to execute command: API call failed: Failed to get command status: URL has an invalid label.'')"
proof -
  have run: "vm_running demo_runtime (scripted_api running_status ex po) ''pve'' ''100''" for ex po
    by (simp add: vm_running_def scripted_api_def running_status_def)
  have sub: "submitted_pid (scripted_api st started po) ''pve'' ''100'' ''ls'' = Some (PInt 4711)"
    for st po
    by (simp add: submitted_pid_def scripted_api_def started_def)
  have m: "\<not> mentions_not_found ''URL has an invalid label.''"
    by code_simp
  show ?thesis
    using m run sub
      value_error_unchanged_from_status_check_only
        [of "scripted_api (Inl (Exn ValueError ''URL has an invalid label.'')) started
               (Inr (PStr ''done''))"
            "''pve''" "''100''" "Exn ValueError ''URL has an invalid label.''"
            demo_runtime "''ls''" PNone PNone "PInt 4711"]
      value_error_unchanged_from_status_check_only
        [of "scripted_api (Inr (PDict [(''status'', PStr ''paused'')])) started
               (Inr (PStr ''done''))"
            "''pve''" "''100''" "Exn ValueError []"
            demo_runtime "''ls''" "PDict [(''status'', PStr ''paused'')]" "PStr ''paused''"
            "PInt 4711"]
      value_error_unchanged_from_status_check_only
        [of "scripted_api running_status (Inl (Exn ValueError ''URL has an invalid label.''))
               (Inr (PStr ''done''))"
            "''pve''" "''100''" "Exn ValueError ''URL has an invalid label.''"
            demo_runtime "''ls''" PNone PNone "PInt 4711"]
      value_error_unchanged_from_status_check_only
        [of "scripted_api running_status started
               (Inl (Exn ValueError ''URL has an invalid label.''))"
            "''pve''" "''100''" "Exn ValueError ''URL has an invalid label.''"
            demo_runtime "''ls''" PNone PNone "PInt 4711"]
    by (simp add: scripted_api_def not_running_error_def status_fetch_error_def
        execution_failed_error_def)
qed

text \<open>
  C9 as stated fails: a \<open>ValueError\<close> raised by the submit call reaches the caller as a
  \<open>RuntimeError\<close> with the two prefixes of the inner handlers and the prefix of the outer
  one.
\<close>

theorem submit_value_error_wrapped_counterexample:
  "fst (execute_command demo_runtime
          (scripted_api running_status (Inl (Exn ValueError ''URL has an invalid label.''))
             (Inr (PStr ''done''))) ''pve'' ''100'' ''ls'')
     = Inl (Exn RuntimeError ''Failed to execute command: API call failed: Failed to start command: URL has an invalid label.'')"
proof -
  have "\<not> mentions_not_found ''API call failed: Failed to start command: URL has an invalid label.''"
    by code_simp
  then show ?thesis
    by (simp add: execute_command_def execute_body_def api_call_def two_step_def start_command_def
        rewrap_def scripted_api_def running_status_def classify_def)
qed

text \<open>
  C10. Whenever the call returns, what it returns is a dictionary with exactly the four keys
  \<open>success\<close>, \<open>output\<close>, \<open>error\<close> and \<open>exit_code\<close>, in this order, and \<open>success\<close>
  is \<open>True\<close>: no call returns \<open>success = False\<close>.
\<close>

theorem returned_result_has_four_fields_and_success:
  assumes "fst (execute_command rt api node vmid command) = Inr res"
  shows "\<exists>output error exit_code.
           res = PDict [(''success'', PBool True), (''output'', output),
                        (''error'', error), (''exit_code'', exit_code)]"
proof -
  from assms obtain tr where "execute_body rt api node vmid command = (Inr res, tr)"
    by (auto simp add: execute_command_def split: prod.splits sum.splits)
  then obtain vals where "res = result_dict vals"
    by (auto simp add: execute_body_def split: prod.splits sum.splits if_splits)
  then show ?thesis
    by (cases vals) (simp add: result_dict_def)
qed

theorem returned_result_has_four_fields_and_success_witness:
  "fst (execute_command demo_runtime (scripted_api running_status started (Inr (PInt 7)))
          ''pve'' ''100'' ''ls'')
     = Inr (PDict [(''success'', PBool True), (''output'', PStr ''7''), (''error'', PStr []),
                   (''exit_code'', PInt 0)])
   \<and> (\<exists>output error exit_code.
         PDict [(''success'', PBool True), (''output'', PStr ''7''), (''error'', PStr []),
                (''exit_code'', PInt 0)]
           = PDict [(''success'', PBool True), (''output'', output),
                    (''error'', error), (''exit_code'', exit_code)])"
proof -
  have "int_str 7 = ''7''"
    by code_simp
  then have run: "fst (execute_command demo_runtime
          (scripted_api running_status started (Inr (PInt 7))) ''pve'' ''100'' ''ls'')
     = Inr (PDict [(''success'', PBool True), (''output'', PStr ''7''), (''error'', PStr []),
                   (''exit_code'', PInt 0)])"
    by (simp add: execute_command_def execute_body_def api_call_def two_step_def start_command_def
        get_command_status_def rewrap_def scripted_api_def running_status_def started_def
        handle_response_def result_dict_def)
  from run show ?thesis
    using returned_result_has_four_fields_and_success [OF run] by simp
qed

end
